theory Spec2Isabelle
  imports Main
begin

section \<open>Data model of stream\_alert/rule\_processor/handler.py\<close>

text \<open>
  The handler is Python 2 code. Its data units are byte strings, its environment descriptor
  is a dictionary read at the key \<open>lambda_alias\<close>, and the event is a dictionary read at the
  key \<open>Records\<close> with the default \<open>[]\<close>.
\<close>

type_synonym data = string

type_synonym env = "string \<rightharpoonup> string"

type_synonym 'r event = "string \<rightharpoonup> 'r list"

text \<open>
  The payload object. The class \<open>StreamPayload\<close> lives in classifier.py; the handler reads
  the attributes \<open>raw_record\<close>, \<open>service\<close>, \<open>valid_source\<close> and \<open>valid\<close> only. Everything else
  the class holds is the field \<open>attrs\<close>. The two flags are read through Python truthiness
  and are modelled as booleans.
\<close>

record ('r, 'x) StreamPayload =
  raw_record :: 'r
  service :: string
  valid_source :: bool
  valid :: bool
  attrs :: 'x

text \<open>
  The object state of \<open>StreamAlert\<close>: \<open>return_alerts\<close> is \<open>kwargs.get('return_alerts')\<close>,
  which is \<open>None\<close> when the keyword is not given.
\<close>

record 'a StreamAlert =
  return_alerts :: "bool option"
  alerts :: "'a list"

datatype 'cfg StreamClassifier = StreamClassifier (config: 'cfg)

text \<open>
  The exceptions that the handler's own statements can raise: a read of the local variable
  \<open>payload\<close> before it is bound, a missing key in \<open>env\<close>, and whatever \<open>json.dumps\<close> raises
  on a value it cannot serialise (\<open>TypeError\<close>, \<open>ValueError\<close>, \<open>UnicodeDecodeError\<close>). The
  handler has no \<open>try\<close> statement, so each of them ends the invocation.
\<close>

datatype error = UnboundLocalError string | KeyError string | JsonDumpsError

datatype loglevel = DEBUG | INFO | ERROR

text \<open>
  A log message: the format string, named by the constructor, and its arguments. The two
  messages that hold JSON hold the string that \<open>json.dumps\<close> returned.
\<close>

datatype ('r, 'x) logmsg =
    Number_of_Records nat
  | Unsupported_service string
  | Alerts_triggered nat
  | Alerts_json_indent4 string
  | Valid_data_no_alerts
  | Invalid_data "('r, 'x) StreamPayload" string

text \<open>
  Everything the handler does to the outside is recorded as an effect, in program order:
  a call of the logger, a call of a collaborator or of \<open>json.dumps\<close> with its arguments, and
  the entry into \<open>process_alerts\<close> and \<open>send_alerts\<close> with the arguments they receive.
\<close>

datatype ('r, 'x, 'a, 'ctx) effect =
    Log loglevel "('r, 'x) logmsg"
  | Call_load_config
  | Call_load_env 'ctx
  | Call_map_source "('r, 'x) StreamPayload"
  | Call_pre_parse_kinesis 'r
  | Call_pre_parse_s3 'r
  | Call_pre_parse_sns 'r
  | Call_refresh_record "('r, 'x) StreamPayload" data
  | Call_classify_record "('r, 'x) StreamPayload" data
  | Call_StreamRules_process "('r, 'x) StreamPayload" "'a list"
  | Call_json_dumps_record 'r
  | Call_json_dumps_alerts "'a list"
  | Call_StreamSink_sink "'a list" env
  | Enter_process_alerts "('r, 'x) StreamPayload" data
  | Enter_send_alerts env "('r, 'x) StreamPayload"

text \<open>
  The collaborators imported by the handler (config.py, classifier.py, pre\_parsers.py,
  rules\_engine.py) are parameters of the model. A method that mutates the payload it is
  given returns the payload it leaves behind. Collaborators are taken to return; an
  exception of theirs is not caught anywhere in the handler.

  \<open>json.dumps(x, indent=4)\<close> is a parameter too, since raw records and alerts are opaque:
  \<open>json_dumps_record\<close> for \<open>payload.raw_record\<close> and \<open>json_dumps_alerts\<close> for the alert list,
  each \<open>None\<close> where \<open>json.dumps\<close> raises.
\<close>

record ('r, 'x, 'a, 'cfg, 'ctx) collaborators =
  load_config :: 'cfg
  load_env :: "'ctx \<Rightarrow> env"
  new_StreamPayload :: "'r \<Rightarrow> ('r, 'x) StreamPayload"
  map_source :: "'cfg StreamClassifier \<Rightarrow> ('r, 'x) StreamPayload \<Rightarrow> ('r, 'x) StreamPayload"
  classify_record ::
    "'cfg StreamClassifier \<Rightarrow> ('r, 'x) StreamPayload \<Rightarrow> data \<Rightarrow> ('r, 'x) StreamPayload"
  refresh_record :: "('r, 'x) StreamPayload \<Rightarrow> data \<Rightarrow> ('r, 'x) StreamPayload"
  pre_parse_kinesis :: "'r \<Rightarrow> data"
  pre_parse_s3 :: "'r \<Rightarrow> data list"
  pre_parse_sns :: "'r \<Rightarrow> data"
  StreamRules_process :: "('r, 'x) StreamPayload \<Rightarrow> 'a list"
  json_dumps_record :: "'r \<Rightarrow> string option"
  json_dumps_alerts :: "'a list \<Rightarrow> string option"

section \<open>The handler\<close>

text \<open>
  Every method returns three things: \<open>Inr\<close> of the payload object as it leaves it, or \<open>Inl\<close>
  of the exception it raises; the object state of \<open>StreamAlert\<close>; and its effects, which on
  an exception are the effects up to the raise.
\<close>

text \<open>\<open>StreamAlert.__init__\<close>: the flag from the keyword arguments, an empty alert list.\<close>

definition StreamAlert_init :: "bool option \<Rightarrow> 'a StreamAlert" where
  "StreamAlert_init kw = \<lparr>return_alerts = kw, alerts = []\<rparr>"

text \<open>\<open>str.rstrip()\<close> without argument removes trailing ASCII whitespace.\<close>

definition whitespace :: "char \<Rightarrow> bool" where
  "whitespace ch = (ch \<in> set [CHR 0x09, CHR 0x0A, CHR 0x0B, CHR 0x0C, CHR 0x0D, CHR 0x20])"

definition rstrip :: "string \<Rightarrow> string" where
  "rstrip s = rev (dropWhile whitespace (rev s))"

text \<open>
  \<open>process_alerts\<close> (lines 105-115). In the branch of invalid data the argument
  \<open>json.dumps(payload.raw_record, indent=4)\<close> is evaluated before \<open>logger.error\<close> is called:
  when it raises, nothing is logged.
\<close>

definition process_alerts ::
  "('r, 'x, 'a, 'cfg, 'ctx) collaborators \<Rightarrow> 'cfg StreamClassifier \<Rightarrow> ('r, 'x) StreamPayload
    \<Rightarrow> data \<Rightarrow> 'a StreamAlert
    \<Rightarrow> (error + ('r, 'x) StreamPayload) \<times> 'a StreamAlert \<times> ('r, 'x, 'a, 'ctx) effect list" where
  "process_alerts c classifier payload d self =
    (let payload' = classify_record c classifier payload d;
         entry = [Enter_process_alerts payload d, Call_classify_record payload d]
     in if valid payload' then
          (let new = StreamRules_process c payload'
           in (Inr payload',
               (if new \<noteq> [] then self\<lparr>alerts := alerts self @ new\<rparr> else self),
               entry @ [Call_StreamRules_process payload' new]))
        else
          (case json_dumps_record c (raw_record payload') of
             None \<Rightarrow>
               (Inl JsonDumpsError, self,
                entry @ [Call_json_dumps_record (raw_record payload')])
           | Some js \<Rightarrow>
               (Inr payload', self,
                entry @ [Call_json_dumps_record (raw_record payload'),
                         Log ERROR (Invalid_data payload' js)])))"

text \<open>\<open>kinesis_process\<close> (lines 76-79) and \<open>sns_process\<close> (lines 89-92).\<close>

definition kinesis_process ::
  "('r, 'x, 'a, 'cfg, 'ctx) collaborators \<Rightarrow> ('r, 'x) StreamPayload \<Rightarrow> 'cfg StreamClassifier
    \<Rightarrow> 'a StreamAlert
    \<Rightarrow> (error + ('r, 'x) StreamPayload) \<times> 'a StreamAlert \<times> ('r, 'x, 'a, 'ctx) effect list" where
  "kinesis_process c payload classifier self =
    (let d = pre_parse_kinesis c (raw_record payload)
     in case process_alerts c classifier payload d self of
          (x, s, es) \<Rightarrow> (x, s, Call_pre_parse_kinesis (raw_record payload) # es))"

definition sns_process ::
  "('r, 'x, 'a, 'cfg, 'ctx) collaborators \<Rightarrow> ('r, 'x) StreamPayload \<Rightarrow> 'cfg StreamClassifier
    \<Rightarrow> 'a StreamAlert
    \<Rightarrow> (error + ('r, 'x) StreamPayload) \<times> 'a StreamAlert \<times> ('r, 'x, 'a, 'ctx) effect list" where
  "sns_process c payload classifier self =
    (let d = pre_parse_sns c (raw_record payload)
     in case process_alerts c classifier payload d self of
          (x, s, es) \<Rightarrow> (x, s, Call_pre_parse_sns (raw_record payload) # es))"

text \<open>
  \<open>s3_process\<close> (lines 81-87). \<open>s3_lines\<close> is the \<open>for line in s3_file_lines\<close> loop; the
  payload object is the same one through all iterations, so each iteration starts from the
  payload the previous one left. An exception in \<open>process_alerts\<close> leaves the loop.
\<close>

fun s3_lines ::
  "('r, 'x, 'a, 'cfg, 'ctx) collaborators \<Rightarrow> 'cfg StreamClassifier \<Rightarrow> data list
    \<Rightarrow> ('r, 'x) StreamPayload \<Rightarrow> 'a StreamAlert
    \<Rightarrow> (error + ('r, 'x) StreamPayload) \<times> 'a StreamAlert \<times> ('r, 'x, 'a, 'ctx) effect list" where
  "s3_lines c classifier [] payload self = (Inr payload, self, [])"
| "s3_lines c classifier (line # rest) payload self =
    (let d = rstrip line;
         payload1 = refresh_record c payload d
     in case process_alerts c classifier payload1 d self of
          (x, self2, es) \<Rightarrow>
            (case x of
               Inl err \<Rightarrow> (Inl err, self2, Call_refresh_record payload d # es)
             | Inr payload2 \<Rightarrow>
                 (case s3_lines c classifier rest payload2 self2 of
                    (y, self3, es') \<Rightarrow> (y, self3, Call_refresh_record payload d # es @ es'))))"

definition s3_process ::
  "('r, 'x, 'a, 'cfg, 'ctx) collaborators \<Rightarrow> ('r, 'x) StreamPayload \<Rightarrow> 'cfg StreamClassifier
    \<Rightarrow> 'a StreamAlert
    \<Rightarrow> (error + ('r, 'x) StreamPayload) \<times> 'a StreamAlert \<times> ('r, 'x, 'a, 'ctx) effect list" where
  "s3_process c payload classifier self =
    (let s3_file_lines = pre_parse_s3 c (raw_record payload)
     in case s3_lines c classifier s3_file_lines payload self of
          (x, s, es) \<Rightarrow> (x, s, Call_pre_parse_s3 (raw_record payload) # es))"

text \<open>
  \<open>send_alerts\<close> (lines 94-103). \<open>env['lambda_alias']\<close> raises \<open>KeyError\<close> on a missing key.
  In the development branch the count is logged first; the argument
  \<open>json.dumps(self.alerts, indent=4)\<close> of the second \<open>logger.info\<close> is evaluated after that.
\<close>

definition send_alerts ::
  "('r, 'x, 'a, 'cfg, 'ctx) collaborators \<Rightarrow> env \<Rightarrow> ('r, 'x) StreamPayload \<Rightarrow> 'a StreamAlert
    \<Rightarrow> (error + unit) \<times> ('r, 'x, 'a, 'ctx) effect list" where
  "send_alerts c e payload self =
    (if alerts self \<noteq> [] then
       (case e ''lambda_alias'' of
          None \<Rightarrow> (Inl (KeyError ''lambda_alias''), [Enter_send_alerts e payload])
        | Some stage \<Rightarrow>
            if stage = ''development'' then
              (case json_dumps_alerts c (alerts self) of
                 None \<Rightarrow>
                   (Inl JsonDumpsError,
                    [Enter_send_alerts e payload,
                     Log INFO (Alerts_triggered (length (alerts self))),
                     Call_json_dumps_alerts (alerts self)])
               | Some js \<Rightarrow>
                   (Inr (),
                    [Enter_send_alerts e payload,
                     Log INFO (Alerts_triggered (length (alerts self))),
                     Call_json_dumps_alerts (alerts self),
                     Log INFO (Alerts_json_indent4 js)]))
            else (Inr (), [Enter_send_alerts e payload, Call_StreamSink_sink (alerts self) e]))
     else if valid payload then
       (Inr (), [Enter_send_alerts e payload, Log DEBUG Valid_data_no_alerts])
     else (Inr (), [Enter_send_alerts e payload]))"

text \<open>
  The body of the \<open>for record in ...\<close> loop of \<open>run\<close> (lines 52-68). It returns the payload
  object that the local variable \<open>payload\<close> is bound to when the iteration ends.
\<close>

definition run_record ::
  "('r, 'x, 'a, 'cfg, 'ctx) collaborators \<Rightarrow> 'cfg \<Rightarrow> 'r \<Rightarrow> 'a StreamAlert
    \<Rightarrow> (error + ('r, 'x) StreamPayload) \<times> 'a StreamAlert \<times> ('r, 'x, 'a, 'ctx) effect list" where
  "run_record c cfg record self =
    (let payload0 = new_StreamPayload c record;
         classifier = StreamClassifier cfg;
         payload = map_source c classifier payload0
     in if \<not> valid_source payload then (Inr payload, self, [Call_map_source payload0])
        else if service payload = ''s3'' then
          (case s3_process c payload classifier self of
             (x, s, es) \<Rightarrow> (x, s, Call_map_source payload0 # es))
        else if service payload = ''kinesis'' then
          (case kinesis_process c payload classifier self of
             (x, s, es) \<Rightarrow> (x, s, Call_map_source payload0 # es))
        else if service payload = ''sns'' then
          (case sns_process c payload classifier self of
             (x, s, es) \<Rightarrow> (x, s, Call_map_source payload0 # es))
        else (Inr payload, self,
              [Call_map_source payload0, Log INFO (Unsupported_service (service payload))]))"

text \<open>
  The loop itself. The first component of its state is the local variable \<open>payload\<close>:
  \<open>None\<close> while it is unbound, that is, until the first iteration. An exception in an
  iteration leaves the loop.
\<close>

fun run_loop ::
  "('r, 'x, 'a, 'cfg, 'ctx) collaborators \<Rightarrow> 'cfg \<Rightarrow> 'r list
    \<Rightarrow> ('r, 'x) StreamPayload option \<times> 'a StreamAlert \<times> ('r, 'x, 'a, 'ctx) effect list
    \<Rightarrow> (error + ('r, 'x) StreamPayload option) \<times> 'a StreamAlert
        \<times> ('r, 'x, 'a, 'ctx) effect list" where
  "run_loop c cfg [] (pl, self, es) = (Inr pl, self, es)"
| "run_loop c cfg (record # rest) (pl, self, es) =
    (case run_record c cfg record self of
       (x, s, es') \<Rightarrow>
         (case x of
            Inl err \<Rightarrow> (Inl err, s, es @ es')
          | Inr p \<Rightarrow> run_loop c cfg rest (Some p, s, es @ es')))"

text \<open>
  \<open>run\<close> (lines 29-74). The result is what the call returns (\<open>Some\<close> of the alert list, or
  \<open>None\<close>) or the exception it raises, the object state it leaves, and its effects.
\<close>

definition get_Records :: "'r event \<Rightarrow> 'r list" where
  "get_Records ev = (case ev ''Records'' of None \<Rightarrow> [] | Some rs \<Rightarrow> rs)"

definition run ::
  "('r, 'x, 'a, 'cfg, 'ctx) collaborators \<Rightarrow> 'r event \<Rightarrow> 'ctx \<Rightarrow> 'a StreamAlert
    \<Rightarrow> (error + 'a list option) \<times> 'a StreamAlert \<times> ('r, 'x, 'a, 'ctx) effect list" where
  "run c ev context self =
    (let cfg = load_config c;
         e = load_env c context;
         start = [Log DEBUG (Number_of_Records (length (get_Records ev))),
                  Call_load_config, Call_load_env context]
     in case run_loop c cfg (get_Records ev) (None, self, start) of
          (x, self', es) \<Rightarrow>
            (case x of
               Inl err \<Rightarrow> (Inl err, self', es)
             | Inr pl \<Rightarrow>
                 if return_alerts self' = Some True then (Inr (Some (alerts self')), self', es)
                 else (case pl of
                         None \<Rightarrow> (Inl (UnboundLocalError ''payload''), self', es)
                       | Some payload \<Rightarrow>
                           (case send_alerts c e payload self' of
                              (Inl err, es') \<Rightarrow> (Inl err, self', es @ es')
                            | (Inr u, es') \<Rightarrow> (Inr None, self', es @ es')))))"

section \<open>Observations on results and effects\<close>

abbreviation payload_of :: "'p \<times> 's \<times> 'e \<Rightarrow> 'p" where
  "payload_of x \<equiv> fst x"

abbreviation self_of :: "'p \<times> 's \<times> 'e \<Rightarrow> 's" where
  "self_of x \<equiv> fst (snd x)"

abbreviation effects_of :: "'p \<times> 's \<times> 'e \<Rightarrow> 'e" where
  "effects_of x \<equiv> snd (snd x)"

text \<open>The loop of \<open>run\<close>, started as \<open>run\<close> starts it.\<close>

abbreviation loop_of ::
  "('r, 'x, 'a, 'cfg, 'ctx) collaborators \<Rightarrow> 'r event \<Rightarrow> 'ctx \<Rightarrow> 'a StreamAlert
    \<Rightarrow> (error + ('r, 'x) StreamPayload option) \<times> 'a StreamAlert
        \<times> ('r, 'x, 'a, 'ctx) effect list" where
  "loop_of c ev context self \<equiv>
     run_loop c (load_config c) (get_Records ev)
       (None, self, [Log DEBUG (Number_of_Records (length (get_Records ev))),
                     Call_load_config, Call_load_env context])"

fun log_of :: "('r, 'x, 'a, 'ctx) effect \<Rightarrow> (loglevel \<times> ('r, 'x) logmsg) list" where
  "log_of (Log lvl m) = [(lvl, m)]"
| "log_of _ = []"

fun sink_of :: "('r, 'x, 'a, 'ctx) effect \<Rightarrow> ('a list \<times> env) list" where
  "sink_of (Call_StreamSink_sink as e) = [(as, e)]"
| "sink_of _ = []"

fun extraction_of :: "('r, 'x, 'a, 'ctx) effect \<Rightarrow> 'r list" where
  "extraction_of (Call_pre_parse_kinesis r) = [r]"
| "extraction_of (Call_pre_parse_s3 r) = [r]"
| "extraction_of (Call_pre_parse_sns r) = [r]"
| "extraction_of _ = []"

fun classify_of :: "('r, 'x, 'a, 'ctx) effect \<Rightarrow> (('r, 'x) StreamPayload \<times> data) list" where
  "classify_of (Call_classify_record p d) = [(p, d)]"
| "classify_of _ = []"

fun rule_result_of :: "('r, 'x, 'a, 'ctx) effect \<Rightarrow> 'a list list" where
  "rule_result_of (Call_StreamRules_process p as) = [as]"
| "rule_result_of _ = []"

fun process_entry_of ::
  "('r, 'x, 'a, 'ctx) effect \<Rightarrow> (('r, 'x) StreamPayload \<times> data) list" where
  "process_entry_of (Enter_process_alerts p d) = [(p, d)]"
| "process_entry_of _ = []"

fun send_entry_of :: "('r, 'x, 'a, 'ctx) effect \<Rightarrow> (env \<times> ('r, 'x) StreamPayload) list" where
  "send_entry_of (Enter_send_alerts e p) = [(e, p)]"
| "send_entry_of _ = []"

text \<open>
  The branch \<open>process_alerts\<close> took: \<open>True\<close> for a rule evaluation, \<open>False\<close> for the branch
  of invalid data, which starts with the call of \<open>json.dumps\<close> on the raw record.
\<close>

fun verdict_of :: "('r, 'x, 'a, 'ctx) effect \<Rightarrow> bool list" where
  "verdict_of (Call_StreamRules_process p as) = [True]"
| "verdict_of (Call_json_dumps_record r) = [False]"
| "verdict_of _ = []"

definition logs ::
  "('r, 'x, 'a, 'ctx) effect list \<Rightarrow> (loglevel \<times> ('r, 'x) logmsg) list" where
  "logs es = concat (map log_of es)"

definition sink_calls :: "('r, 'x, 'a, 'ctx) effect list \<Rightarrow> ('a list \<times> env) list" where
  "sink_calls es = concat (map sink_of es)"

definition extraction_calls :: "('r, 'x, 'a, 'ctx) effect list \<Rightarrow> 'r list" where
  "extraction_calls es = concat (map extraction_of es)"

definition classify_calls ::
  "('r, 'x, 'a, 'ctx) effect list \<Rightarrow> (('r, 'x) StreamPayload \<times> data) list" where
  "classify_calls es = concat (map classify_of es)"

definition rule_results :: "('r, 'x, 'a, 'ctx) effect list \<Rightarrow> 'a list list" where
  "rule_results es = concat (map rule_result_of es)"

definition process_alerts_entries ::
  "('r, 'x, 'a, 'ctx) effect list \<Rightarrow> (('r, 'x) StreamPayload \<times> data) list" where
  "process_alerts_entries es = concat (map process_entry_of es)"

definition send_alerts_entries ::
  "('r, 'x, 'a, 'ctx) effect list \<Rightarrow> (env \<times> ('r, 'x) StreamPayload) list" where
  "send_alerts_entries es = concat (map send_entry_of es)"

definition verdicts :: "('r, 'x, 'a, 'ctx) effect list \<Rightarrow> bool list" where
  "verdicts es = concat (map verdict_of es)"

section \<open>The data units of a batch, as the specification describes them\<close>

text \<open>
  The data units handed to the alert pipeline, in record order and, inside an s3 record, in
  line order, each with the payload in the state in which \<open>process_alerts\<close> receives it; the
  rule-evaluation results of the valid ones; and the state in which a record leaves its
  payload. None of these depends on the alert list.

  A unit raises when it is not valid and \<open>json.dumps\<close> cannot serialise the raw record of
  its payload. The invocation ends there, so the units of an s3 object and of a batch stop
  with the first unit that raises; when none does, they are all lines and all records.
\<close>

definition unit_results ::
  "('r, 'x, 'a, 'cfg, 'ctx) collaborators \<Rightarrow> 'cfg StreamClassifier
    \<Rightarrow> ('r, 'x) StreamPayload \<times> data \<Rightarrow> 'a list list" where
  "unit_results c classifier u =
    (let payload' = classify_record c classifier (fst u) (snd u)
     in if valid payload' then [StreamRules_process c payload'] else [])"

definition unit_raises ::
  "('r, 'x, 'a, 'cfg, 'ctx) collaborators \<Rightarrow> 'cfg StreamClassifier
    \<Rightarrow> ('r, 'x) StreamPayload \<times> data \<Rightarrow> bool" where
  "unit_raises c classifier u =
    (let payload' = classify_record c classifier (fst u) (snd u)
     in \<not> valid payload' \<and> json_dumps_record c (raw_record payload') = None)"

definition raises ::
  "('r, 'x, 'a, 'cfg, 'ctx) collaborators \<Rightarrow> 'cfg StreamClassifier
    \<Rightarrow> (('r, 'x) StreamPayload \<times> data) list \<Rightarrow> bool" where
  "raises c classifier units = list_ex (unit_raises c classifier) units"

fun s3_units ::
  "('r, 'x, 'a, 'cfg, 'ctx) collaborators \<Rightarrow> 'cfg StreamClassifier \<Rightarrow> ('r, 'x) StreamPayload
    \<Rightarrow> data list \<Rightarrow> (('r, 'x) StreamPayload \<times> data) list" where
  "s3_units c classifier payload [] = []"
| "s3_units c classifier payload (line # rest) =
    (let d = rstrip line;
         payload1 = refresh_record c payload d
     in (payload1, d) #
        (if unit_raises c classifier (payload1, d) then []
         else s3_units c classifier (classify_record c classifier payload1 d) rest))"

definition record_units ::
  "('r, 'x, 'a, 'cfg, 'ctx) collaborators \<Rightarrow> 'cfg \<Rightarrow> 'r
    \<Rightarrow> (('r, 'x) StreamPayload \<times> data) list" where
  "record_units c cfg record =
    (let classifier = StreamClassifier cfg;
         payload = map_source c classifier (new_StreamPayload c record)
     in if \<not> valid_source payload then []
        else if service payload = ''s3'' then
          s3_units c classifier payload (pre_parse_s3 c (raw_record payload))
        else if service payload = ''kinesis'' then
          [(payload, pre_parse_kinesis c (raw_record payload))]
        else if service payload = ''sns'' then
          [(payload, pre_parse_sns c (raw_record payload))]
        else [])"

fun batch_units ::
  "('r, 'x, 'a, 'cfg, 'ctx) collaborators \<Rightarrow> 'cfg \<Rightarrow> 'r list
    \<Rightarrow> (('r, 'x) StreamPayload \<times> data) list" where
  "batch_units c cfg [] = []"
| "batch_units c cfg (record # rest) =
    record_units c cfg record @
    (if raises c (StreamClassifier cfg) (record_units c cfg record) then []
     else batch_units c cfg rest)"

definition results_of ::
  "('r, 'x, 'a, 'cfg, 'ctx) collaborators \<Rightarrow> 'cfg StreamClassifier
    \<Rightarrow> (('r, 'x) StreamPayload \<times> data) list \<Rightarrow> 'a list list" where
  "results_of c classifier units = concat (map (unit_results c classifier) units)"

fun s3_final ::
  "('r, 'x, 'a, 'cfg, 'ctx) collaborators \<Rightarrow> 'cfg StreamClassifier \<Rightarrow> ('r, 'x) StreamPayload
    \<Rightarrow> data list \<Rightarrow> ('r, 'x) StreamPayload" where
  "s3_final c classifier payload [] = payload"
| "s3_final c classifier payload (line # rest) =
    s3_final c classifier
      (classify_record c classifier (refresh_record c payload (rstrip line)) (rstrip line)) rest"

definition record_payload ::
  "('r, 'x, 'a, 'cfg, 'ctx) collaborators \<Rightarrow> 'cfg \<Rightarrow> 'r \<Rightarrow> ('r, 'x) StreamPayload" where
  "record_payload c cfg record =
    (let classifier = StreamClassifier cfg;
         payload = map_source c classifier (new_StreamPayload c record)
     in if \<not> valid_source payload then payload
        else if service payload = ''s3'' then
          s3_final c classifier payload (pre_parse_s3 c (raw_record payload))
        else if service payload = ''kinesis'' then
          classify_record c classifier payload (pre_parse_kinesis c (raw_record payload))
        else if service payload = ''sns'' then
          classify_record c classifier payload (pre_parse_sns c (raw_record payload))
        else payload)"

section \<open>Concrete collaborators\<close>

text \<open>
  Raw records are numbers: 0 comes from a source that is not configured, 1 from s3, 2 from
  kinesis, 3 and 5 from sns, anything else from a configured source of another service. A
  data unit is valid when it is not empty; the rule engine returns the data unit as its one
  alert, except for the unit \<open>b\<close>, which matches no rule. \<open>json.dumps\<close> raises on the raw
  record 5 and on nothing else.
\<close>

definition production :: env where
  "production = [''lambda_alias'' \<mapsto> ''production'']"

definition development :: env where
  "development = [''lambda_alias'' \<mapsto> ''development'']"

definition demo :: "(nat, string, string, unit, unit) collaborators" where
  "demo =
    \<lparr>load_config = (),
     load_env = (\<lambda>context. [''lambda_alias'' \<mapsto> ''production'']),
     new_StreamPayload =
       (\<lambda>r. \<lparr>raw_record = r, service = ''none'', valid_source = False, valid = False,
              attrs = []\<rparr>),
     map_source =
       (\<lambda>classifier p.
          if raw_record p = 0 then p
          else p\<lparr>service :=
                   (if raw_record p = 1 then ''s3''
                    else if raw_record p = 2 then ''kinesis''
                    else if raw_record p = 3 \<or> raw_record p = 5 then ''sns'' else ''other''),
                 valid_source := True\<rparr>),
     classify_record = (\<lambda>classifier p d. p\<lparr>valid := (d \<noteq> []), attrs := d\<rparr>),
     refresh_record = (\<lambda>p d. p\<lparr>attrs := d\<rparr>),
     pre_parse_kinesis = (\<lambda>r. ''k''),
     pre_parse_s3 =
       (\<lambda>r. if r = 1 then [''a  '', [CHR 0x09, CHR 0x0A], [CHR ''b'', CHR 0x0A], ''c'']
            else [[CHR 0x09, CHR 0x0A]]),
     pre_parse_sns = (\<lambda>r. []),
     StreamRules_process = (\<lambda>p. if attrs p = ''b'' then [] else [attrs p]),
     json_dumps_record = (\<lambda>r. if r = 5 then None else Some ''{}''),
     json_dumps_alerts = (\<lambda>as. Some ''[]'')\<rparr>"


text \<open>
  The same collaborators in the development stage, with alerts that \<open>json.dumps\<close> cannot
  serialise.
\<close>

definition demo_dev :: "(nat, string, string, unit, unit) collaborators" where
  "demo_dev =
    demo\<lparr>load_env := (\<lambda>context. [''lambda_alias'' \<mapsto> ''development'']),
         json_dumps_alerts := (\<lambda>as. None)\<rparr>"


section \<open>Properties of the handler's functions\<close>

lemmas observers =
  logs_def sink_calls_def extraction_calls_def classify_calls_def rule_results_def
  process_alerts_entries_def send_alerts_entries_def verdicts_def

lemma observers_append:
  "logs (es @ es') = logs es @ logs es'"
  "sink_calls (es @ es') = sink_calls es @ sink_calls es'"
  "extraction_calls (es @ es') = extraction_calls es @ extraction_calls es'"
  "classify_calls (es @ es') = classify_calls es @ classify_calls es'"
  "rule_results (es @ es') = rule_results es @ rule_results es'"
  "process_alerts_entries (es @ es') = process_alerts_entries es @ process_alerts_entries es'"
  "send_alerts_entries (es @ es') = send_alerts_entries es @ send_alerts_entries es'"
  "verdicts (es @ es') = verdicts es @ verdicts es'"
  by (simp_all add: observers)

lemma observers_Cons:
  "logs (x # es) = log_of x @ logs es"
  "sink_calls (x # es) = sink_of x @ sink_calls es"
  "extraction_calls (x # es) = extraction_of x @ extraction_calls es"
  "classify_calls (x # es) = classify_of x @ classify_calls es"
  "rule_results (x # es) = rule_result_of x @ rule_results es"
  "process_alerts_entries (x # es) = process_entry_of x @ process_alerts_entries es"
  "send_alerts_entries (x # es) = send_entry_of x @ send_alerts_entries es"
  "verdicts (x # es) = verdict_of x @ verdicts es"
  by (simp_all add: observers)

lemma observers_Nil:
  "logs [] = []" "sink_calls [] = []" "extraction_calls [] = []" "classify_calls [] = []"
  "rule_results [] = []" "process_alerts_entries [] = []" "send_alerts_entries [] = []"
  "verdicts [] = []"
  by (simp_all add: observers)

lemmas obs = observers_append observers_Cons observers_Nil

lemma results_of_simps:
  "results_of c cl [] = []"
  "results_of c cl (u # us) = unit_results c cl u @ results_of c cl us"
  "results_of c cl (us @ vs) = results_of c cl us @ results_of c cl vs"
  by (simp_all add: results_of_def)

lemma raises_simps:
  "raises c cl [] = False"
  "raises c cl (u # us) = (unit_raises c cl u \<or> raises c cl us)"
  "raises c cl (us @ vs) = (raises c cl us \<or> raises c cl vs)"
  by (simp_all add: raises_def)

lemma concat_nonempty: "concat (filter (\<lambda>xs. xs \<noteq> []) xss) = concat xss"
  by (induction xss) simp_all

lemma process_alerts_payload:
  "payload_of (process_alerts c cl p d s) =
     (if unit_raises c cl (p, d) then Inl JsonDumpsError else Inr (classify_record c cl p d))"
  by (simp add: process_alerts_def unit_raises_def Let_def split: option.splits)

lemma process_alerts_self:
  "alerts (self_of (process_alerts c cl p d s)) = alerts s @ concat (unit_results c cl (p, d))"
  "return_alerts (self_of (process_alerts c cl p d s)) = return_alerts s"
  by (simp_all add: process_alerts_def unit_results_def Let_def split: option.splits)

lemma process_alerts_effects:
  "process_alerts_entries (effects_of (process_alerts c cl p d s)) = [(p, d)]"
  "classify_calls (effects_of (process_alerts c cl p d s)) = [(p, d)]"
  "rule_results (effects_of (process_alerts c cl p d s)) = unit_results c cl (p, d)"
  "verdicts (effects_of (process_alerts c cl p d s)) = [valid (classify_record c cl p d)]"
  "sink_calls (effects_of (process_alerts c cl p d s)) = []"
  "send_alerts_entries (effects_of (process_alerts c cl p d s)) = []"
  "extraction_calls (effects_of (process_alerts c cl p d s)) = []"
  by (simp_all add: process_alerts_def unit_results_def Let_def observers split: option.splits)

lemma s3_lines_payload:
  "payload_of (s3_lines c cl ls p s) =
     (if raises c cl (s3_units c cl p ls) then Inl JsonDumpsError
      else Inr (s3_final c cl p ls))"
  by (induction ls arbitrary: p s)
    (simp_all add: split_beta Let_def process_alerts_payload raises_simps)

lemma s3_lines_self:
  "alerts (self_of (s3_lines c cl ls p s)) =
     alerts s @ concat (results_of c cl (s3_units c cl p ls))
   \<and> return_alerts (self_of (s3_lines c cl ls p s)) = return_alerts s"
proof (induction ls arbitrary: p s)
  case Nil
  then show ?case by (simp add: results_of_simps)
next
  case (Cons l ls)
  show ?case
  proof (cases "unit_raises c cl (refresh_record c p (rstrip l), rstrip l)")
    case True
    then show ?thesis
      by (simp add: split_beta Let_def process_alerts_payload process_alerts_self
          results_of_simps)
  next
    case False
    then show ?thesis
      by (simp add: split_beta Let_def process_alerts_payload process_alerts_self
          results_of_simps Cons.IH)
  qed
qed

lemma s3_lines_effects:
  "process_alerts_entries (effects_of (s3_lines c cl ls p s)) = s3_units c cl p ls
   \<and> classify_calls (effects_of (s3_lines c cl ls p s)) = s3_units c cl p ls
   \<and> rule_results (effects_of (s3_lines c cl ls p s)) = results_of c cl (s3_units c cl p ls)
   \<and> verdicts (effects_of (s3_lines c cl ls p s)) =
       map (\<lambda>u. valid (classify_record c cl (fst u) (snd u))) (s3_units c cl p ls)
   \<and> sink_calls (effects_of (s3_lines c cl ls p s)) = []
   \<and> send_alerts_entries (effects_of (s3_lines c cl ls p s)) = []
   \<and> extraction_calls (effects_of (s3_lines c cl ls p s)) = []"
proof (induction ls arbitrary: p s)
  case Nil
  then show ?case by (simp add: results_of_simps obs)
next
  case (Cons l ls)
  show ?case
  proof (cases "unit_raises c cl (refresh_record c p (rstrip l), rstrip l)")
    case True
    then show ?thesis
      by (simp add: split_beta Let_def process_alerts_payload process_alerts_effects
          results_of_simps obs)
  next
    case False
    then show ?thesis
      by (simp add: split_beta Let_def process_alerts_payload process_alerts_effects
          results_of_simps obs Cons.IH)
  qed
qed



lemma run_record_payload:
  "payload_of (run_record c cfg r s) =
     (if raises c (StreamClassifier cfg) (record_units c cfg r) then Inl JsonDumpsError
      else Inr (record_payload c cfg r))"
  by (simp add: run_record_def record_payload_def record_units_def s3_process_def
      kinesis_process_def sns_process_def split_beta Let_def process_alerts_payload
      s3_lines_payload raises_simps)

lemma run_record_self:
  "alerts (self_of (run_record c cfg r s)) =
     alerts s @ concat (results_of c (StreamClassifier cfg) (record_units c cfg r))"
  "return_alerts (self_of (run_record c cfg r s)) = return_alerts s"
  by (simp_all add: run_record_def record_units_def s3_process_def kinesis_process_def
      sns_process_def split_beta Let_def process_alerts_self s3_lines_self results_of_simps)

lemma run_record_effects:
  "process_alerts_entries (effects_of (run_record c cfg r s)) = record_units c cfg r"
  "classify_calls (effects_of (run_record c cfg r s)) = record_units c cfg r"
  "rule_results (effects_of (run_record c cfg r s)) =
     results_of c (StreamClassifier cfg) (record_units c cfg r)"
  "sink_calls (effects_of (run_record c cfg r s)) = []"
  "send_alerts_entries (effects_of (run_record c cfg r s)) = []"
  by (simp_all add: run_record_def record_units_def s3_process_def kinesis_process_def
      sns_process_def split_beta Let_def process_alerts_effects s3_lines_effects
      results_of_simps obs)

lemma run_loop_payload:
  "fst (run_loop c cfg rs (pl, s, es)) =
     (if raises c (StreamClassifier cfg) (batch_units c cfg rs) then Inl JsonDumpsError
      else Inr (if rs = [] then pl else Some (record_payload c cfg (last rs))))"
proof (induction rs arbitrary: pl s es)
  case Nil
  then show ?case by (simp add: raises_simps)
next
  case (Cons r rs)
  show ?case
  proof (cases "raises c (StreamClassifier cfg) (record_units c cfg r)")
    case True
    then show ?thesis by (simp add: split_beta run_record_payload raises_simps)
  next
    case False
    then show ?thesis by (simp add: split_beta run_record_payload raises_simps Cons.IH)
  qed
qed

lemma run_loop_self:
  "alerts (self_of (run_loop c cfg rs (pl, s, es))) =
     alerts s @ concat (results_of c (StreamClassifier cfg) (batch_units c cfg rs))
   \<and> return_alerts (self_of (run_loop c cfg rs (pl, s, es))) = return_alerts s"
proof (induction rs arbitrary: pl s es)
  case Nil
  then show ?case by (simp add: results_of_simps)
next
  case (Cons r rs)
  show ?case
  proof (cases "raises c (StreamClassifier cfg) (record_units c cfg r)")
    case True
    then show ?thesis
      by (simp add: split_beta run_record_payload run_record_self results_of_simps)
  next
    case False
    then show ?thesis
      by (simp add: split_beta run_record_payload run_record_self results_of_simps Cons.IH)
  qed
qed

lemma run_loop_effects:
  "process_alerts_entries (effects_of (run_loop c cfg rs (pl, s, es))) =
     process_alerts_entries es @ batch_units c cfg rs
   \<and> classify_calls (effects_of (run_loop c cfg rs (pl, s, es))) =
     classify_calls es @ batch_units c cfg rs
   \<and> rule_results (effects_of (run_loop c cfg rs (pl, s, es))) =
     rule_results es @ results_of c (StreamClassifier cfg) (batch_units c cfg rs)
   \<and> sink_calls (effects_of (run_loop c cfg rs (pl, s, es))) = sink_calls es
   \<and> send_alerts_entries (effects_of (run_loop c cfg rs (pl, s, es))) = send_alerts_entries es"
proof (induction rs arbitrary: pl s es)
  case Nil
  then show ?case by (simp add: results_of_simps)
next
  case (Cons r rs)
  show ?case
  proof (cases "raises c (StreamClassifier cfg) (record_units c cfg r)")
    case True
    then show ?thesis
      by (simp add: split_beta run_record_payload run_record_effects results_of_simps obs)
  next
    case False
    then show ?thesis
      by (simp add: split_beta run_record_payload run_record_effects results_of_simps obs
          Cons.IH)
  qed
qed

lemma batch_units_all:
  "\<not> raises c (StreamClassifier cfg) (batch_units c cfg rs) \<Longrightarrow>
     batch_units c cfg rs = concat (map (record_units c cfg) rs)"
  by (induction rs) (simp_all add: raises_simps split: if_splits)






lemma run_self: "self_of (run c ev context s) = self_of (loop_of c ev context s)"
  by (simp add: run_def Let_def split_beta split: option.splits sum.splits)

lemma send_alerts_effects:
  "process_alerts_entries (snd (send_alerts c e p s)) = []"
  "classify_calls (snd (send_alerts c e p s)) = []"
  "rule_results (snd (send_alerts c e p s)) = []"
  "send_alerts_entries (snd (send_alerts c e p s)) = [(e, p)]"
  by (simp_all add: send_alerts_def observers split: option.splits)

lemma run_effects:
  "process_alerts_entries (effects_of (run c ev context s)) =
     batch_units c (load_config c) (get_Records ev)"
  "classify_calls (effects_of (run c ev context s)) =
     batch_units c (load_config c) (get_Records ev)"
  "rule_results (effects_of (run c ev context s)) =
     results_of c (StreamClassifier (load_config c))
       (batch_units c (load_config c) (get_Records ev))"
  by (simp_all add: run_def Let_def split_beta run_loop_effects send_alerts_effects obs
      split: option.splits sum.splits)

lemma run_raises:
  assumes "raises c (StreamClassifier (load_config c))
             (batch_units c (load_config c) (get_Records ev))"
  shows "fst (run c ev context s) = Inl JsonDumpsError"
    and "effects_of (run c ev context s) = effects_of (loop_of c ev context s)"
  using assms by (simp_all add: run_def Let_def split_beta run_loop_payload)

lemma run_returns:
  assumes "\<not> raises c (StreamClassifier (load_config c))
             (batch_units c (load_config c) (get_Records ev))"
    and "return_alerts s = Some True"
  shows "fst (run c ev context s) = Inr (Some (alerts (self_of (run c ev context s))))"
    and "effects_of (run c ev context s) = effects_of (loop_of c ev context s)"
  using assms by (simp_all add: run_def Let_def split_beta run_loop_payload run_loop_self)

lemma run_unbound:
  assumes "get_Records ev = []" and "return_alerts s \<noteq> Some True"
  shows "fst (run c ev context s) = Inl (UnboundLocalError ''payload'')"
    and "effects_of (run c ev context s) = effects_of (loop_of c ev context s)"
  using assms by (simp_all add: run_def Let_def)

lemma run_delivers:
  assumes "get_Records ev \<noteq> []" and "return_alerts s \<noteq> Some True"
    and "\<not> raises c (StreamClassifier (load_config c))
             (batch_units c (load_config c) (get_Records ev))"
  shows "effects_of (run c ev context s) =
           effects_of (loop_of c ev context s)
           @ snd (send_alerts c (load_env c context)
               (record_payload c (load_config c) (last (get_Records ev)))
               (self_of (run c ev context s)))"
    and "fst (run c ev context s) =
           (case fst (send_alerts c (load_env c context)
               (record_payload c (load_config c) (last (get_Records ev)))
               (self_of (run c ev context s))) of
              Inl err \<Rightarrow> Inl err | Inr u \<Rightarrow> Inr None)"
  using assms
  by (simp_all add: run_def Let_def split_beta run_loop_self run_loop_payload
      split: sum.splits)

lemma run_send_entries:
  "send_alerts_entries (effects_of (run c ev context s)) =
     (if raises c (StreamClassifier (load_config c))
           (batch_units c (load_config c) (get_Records ev)) then []
      else if return_alerts s = Some True then []
      else if get_Records ev = [] then []
      else [(load_env c context, record_payload c (load_config c) (last (get_Records ev)))])"
proof (cases "raises c (StreamClassifier (load_config c))
    (batch_units c (load_config c) (get_Records ev))")
  case True
  then show ?thesis by (simp add: run_raises run_loop_effects obs)
next
  case nr: False
  show ?thesis
  proof (cases "return_alerts s = Some True")
    case True
    with nr show ?thesis by (simp add: run_returns run_loop_effects obs)
  next
    case nf: False
    show ?thesis
    proof (cases "get_Records ev = []")
      case True
      with nf show ?thesis by (simp add: run_unbound obs)
    next
      case False
      with nr nf show ?thesis
        by (simp add: run_delivers(1) run_loop_effects send_alerts_effects obs)
    qed
  qed
qed

lemma run_loop_sink_calls: "sink_calls (effects_of (loop_of c ev context s)) = []"
  by (simp add: run_loop_effects obs)

lemma send_alerts_empty_accumulator:
  assumes "alerts self = []"
  shows "send_alerts c e payload self =
           (Inr (), if valid payload
                    then [Enter_send_alerts e payload, Log DEBUG Valid_data_no_alerts]
                    else [Enter_send_alerts e payload])"
    and "logs (snd (send_alerts c e payload self)) =
           (if valid payload then [(DEBUG, Valid_data_no_alerts)] else [])"
    and "sink_calls (snd (send_alerts c e payload self)) = []"
  using assms by (simp_all add: send_alerts_def observers)

section \<open>The delivery decision\<close>

text \<open>
  C5. An invocation comes to the delivery decision when its batch is not empty, the
  return-alerts flag is not set and the loop ends without an exception. When its alert list
  is not empty then, \<open>send_alerts\<close> is entered exactly once and the loop has called no sink.
  In the development stage no sink call occurs at all and the alert count is logged; the
  indented JSON of all alerts is logged after it when \<open>json.dumps\<close> returns, and when it
  raises the invocation ends with that exception after the count. In any other stage exactly
  one sink call occurs, with the whole alert list and the environment descriptor, and
  \<open>send_alerts\<close> logs nothing.
\<close>

theorem delivery_of_nonempty_accumulator:
  assumes "get_Records ev \<noteq> []" and "return_alerts self \<noteq> Some True"
    and "\<not> raises c (StreamClassifier (load_config c))
             (batch_units c (load_config c) (get_Records ev))"
    and "alerts (self_of (run c ev context self)) \<noteq> []"
  shows "let r = run c ev context self;
             e = load_env c context;
             as = alerts (self_of r);
             loop = effects_of (loop_of c ev context self)
         in send_alerts_entries (effects_of r) =
              [(e, record_payload c (load_config c) (last (get_Records ev)))]
          \<and> sink_calls loop = []
          \<and> (e ''lambda_alias'' = Some ''development'' \<longrightarrow>
                sink_calls (effects_of r) = []
                \<and> logs (effects_of r) =
                    logs loop @ (INFO, Alerts_triggered (length as)) #
                      (case json_dumps_alerts c as of
                         None \<Rightarrow> [] | Some js \<Rightarrow> [(INFO, Alerts_json_indent4 js)])
                \<and> fst r =
                    (case json_dumps_alerts c as of
                       None \<Rightarrow> Inl JsonDumpsError | Some js \<Rightarrow> Inr None))
          \<and> (\<forall>stage. e ''lambda_alias'' = Some stage \<and> stage \<noteq> ''development'' \<longrightarrow>
                sink_calls (effects_of r) = [(as, e)]
                \<and> logs (effects_of r) = logs loop
                \<and> fst r = Inr None)"
proof -
  note d = run_delivers [OF assms(1,2,3), of "context"]
  have entry: "send_alerts_entries (effects_of (run c ev context self)) =
      [(load_env c context, record_payload c (load_config c) (last (get_Records ev)))]"
    using assms(1,2,3) by (simp add: run_send_entries)
  show ?thesis
    using assms(4) entry
    by (simp add: Let_def d run_loop_sink_calls obs)
      (auto simp: send_alerts_def observers split: option.splits)
qed

theorem delivery_of_nonempty_accumulator_witness:
  "get_Records [''Records'' \<mapsto> [2, 0::nat]] \<noteq> []
   \<and> return_alerts (StreamAlert_init None :: string StreamAlert) \<noteq> Some True
   \<and> \<not> raises demo (StreamClassifier ())
         (batch_units demo () (get_Records [''Records'' \<mapsto> [2, 0]]))
   \<and> alerts (self_of (run demo [''Records'' \<mapsto> [2, 0]] () (StreamAlert_init None))) \<noteq> []
   \<and> load_env demo () ''lambda_alias'' = Some ''production''
   \<and> ''production'' \<noteq> ''development''
   \<and> send_alerts_entries (effects_of
        (run demo [''Records'' \<mapsto> [2, 0]] () (StreamAlert_init None))) =
       [(production,
         \<lparr>raw_record = 0, service = ''none'', valid_source = False, valid = False,
           attrs = []\<rparr>)]
   \<and> sink_calls (effects_of (run demo [''Records'' \<mapsto> [2, 0]] () (StreamAlert_init None))) =
       [([''k''], production)]
   \<and> fst (run demo [''Records'' \<mapsto> [2, 0]] () (StreamAlert_init None)) = Inr None
   \<and> alerts (self_of
        (run (demo\<lparr>load_env := \<lambda>context. development\<rparr>) [''Records'' \<mapsto> [2, 0]] ()
          (StreamAlert_init None))) \<noteq> []
   \<and> load_env (demo\<lparr>load_env := \<lambda>context. development\<rparr>) () ''lambda_alias'' =
       Some ''development''
   \<and> sink_calls (effects_of
        (run (demo\<lparr>load_env := \<lambda>context. development\<rparr>) [''Records'' \<mapsto> [2, 0]] ()
          (StreamAlert_init None))) = []
   \<and> logs (effects_of
        (run (demo\<lparr>load_env := \<lambda>context. development\<rparr>) [''Records'' \<mapsto> [2, 0]] ()
          (StreamAlert_init None))) =
       [(DEBUG, Number_of_Records 2), (INFO, Alerts_triggered 1),
        (INFO, Alerts_json_indent4 ''[]'')]"
proof -
  let ?ev = "[''Records'' \<mapsto> [2, 0::nat]]"
  let ?s = "StreamAlert_init None :: string StreamAlert"
  let ?r = "run demo ?ev () ?s"
  let ?dev = "demo\<lparr>load_env := \<lambda>context. development\<rparr>"
  let ?d = "run ?dev ?ev () ?s"
  have ne: "get_Records ?ev \<noteq> []"
    by (simp add: get_Records_def)
  have nf: "return_alerts ?s \<noteq> Some True"
    by (simp add: StreamAlert_init_def)
  have nr: "\<not> raises demo (StreamClassifier (load_config demo))
      (batch_units demo (load_config demo) (get_Records ?ev))"
    by (simp add: get_Records_def record_units_def raises_def unit_raises_def demo_def)
  have as: "alerts (self_of ?r) = [''k'']"
    by (simp only: run_self run_loop_self)
      (simp add: get_Records_def record_units_def results_of_def unit_results_def raises_def
        unit_raises_def demo_def StreamAlert_init_def)
  then have b: "alerts (self_of ?r) \<noteq> []"
    by simp
  have st: "load_env demo () ''lambda_alias'' = Some ''production''
      \<and> ''production'' \<noteq> ''development''"
    by (simp add: demo_def)
  note t = delivery_of_nonempty_accumulator [OF ne nf nr b, unfolded Let_def]
  from t have en: "send_alerts_entries (effects_of ?r) =
      [(load_env demo (), record_payload demo (load_config demo) (last (get_Records ?ev)))]"
    by (rule conjunct1)
  from t st have p: "sink_calls (effects_of ?r) = [(alerts (self_of ?r), load_env demo ())]
      \<and> fst ?r = Inr None"
    by blast
  have nr': "\<not> raises ?dev (StreamClassifier (load_config ?dev))
      (batch_units ?dev (load_config ?dev) (get_Records ?ev))"
    by (simp add: get_Records_def record_units_def raises_def unit_raises_def demo_def)
  have as': "alerts (self_of ?d) = [''k'']"
    by (simp only: run_self run_loop_self)
      (simp add: get_Records_def record_units_def results_of_def unit_results_def raises_def
        unit_raises_def demo_def StreamAlert_init_def)
  then have b': "alerts (self_of ?d) \<noteq> []"
    by simp
  have st': "load_env ?dev () ''lambda_alias'' = Some ''development''"
    by (simp add: development_def)
  have lg: "logs (effects_of (loop_of ?dev ?ev () ?s)) = [(DEBUG, Number_of_Records 2)]"
    by (simp add: get_Records_def run_record_def kinesis_process_def process_alerts_def
        demo_def Let_def observers)
  note t' = delivery_of_nonempty_accumulator [OF ne nf nr' b', unfolded Let_def]
  from t' st' have q: "sink_calls (effects_of ?d) = []
      \<and> logs (effects_of ?d) =
          logs (effects_of (loop_of ?dev ?ev () ?s))
          @ (INFO, Alerts_triggered (length (alerts (self_of ?d)))) #
            (case json_dumps_alerts ?dev (alerts (self_of ?d)) of
               None \<Rightarrow> [] | Some js \<Rightarrow> [(INFO, Alerts_json_indent4 js)])"
    by blast
  have js: "json_dumps_alerts ?dev [''k''] = Some ''[]''"
    by (simp add: demo_def)
  from q have q': "sink_calls (effects_of ?d) = []
      \<and> logs (effects_of ?d) =
          [(DEBUG, Number_of_Records 2), (INFO, Alerts_triggered 1),
           (INFO, Alerts_json_indent4 ''[]'')]"
    by (simp only: lg as' js) simp
  have nr0: "\<not> raises demo (StreamClassifier ()) (batch_units demo () (get_Records ?ev))"
    using nr by (simp add: demo_def)
  from ne nf nr0 b st as en p b' st' q' show ?thesis
    by (simp add: production_def demo_def get_Records_def record_payload_def)
qed

text \<open>
  In the development stage with one alert that \<open>json.dumps\<close> cannot serialise, the count is
  logged, the serialization is not, and \<open>run\<close> ends with the exception.
\<close>

theorem development_json_dumps_counterexample:
  "send_alerts_entries (effects_of
      (run demo_dev [''Records'' \<mapsto> [2]] () (StreamAlert_init None))) =
     [(development,
       \<lparr>raw_record = 2, service = ''kinesis'', valid_source = True, valid = True,
         attrs = ''k''\<rparr>)]
   \<and> alerts (self_of (run demo_dev [''Records'' \<mapsto> [2]] () (StreamAlert_init None))) = [''k'']
   \<and> logs (effects_of (run demo_dev [''Records'' \<mapsto> [2]] () (StreamAlert_init None))) =
       [(DEBUG, Number_of_Records 1), (INFO, Alerts_triggered 1)]
   \<and> fst (run demo_dev [''Records'' \<mapsto> [2]] () (StreamAlert_init None)) = Inl JsonDumpsError"
  by (simp add: run_def get_Records_def run_record_def kinesis_process_def process_alerts_def
      send_alerts_def demo_dev_def demo_def development_def StreamAlert_init_def Let_def
      observers)

section \<open>Extraction from an s3 record\<close>




section \<open>The alert list after a batch\<close>

text \<open>
  C2. After \<open>run\<close> on a newly constructed \<open>StreamAlert\<close>, the alert list is the concatenation
  of the non-empty rule-evaluation results of the data units that \<open>run\<close> processed, in record
  order and in line order within an s3 record; the rule engine was called on exactly the valid
  ones, in that order. When no \<open>json.dumps\<close> call raises, the processed units are the units
  of all records of the batch.
\<close>

theorem run_accumulates_in_order:
  "let r = run c ev context (StreamAlert_init kw);
       units = batch_units c (load_config c) (get_Records ev);
       results = results_of c (StreamClassifier (load_config c)) units
   in alerts (self_of r) = concat (filter (\<lambda>xs. xs \<noteq> []) results)
    \<and> rule_results (effects_of r) = results
    \<and> process_alerts_entries (effects_of r) = units
    \<and> (\<not> raises c (StreamClassifier (load_config c)) units \<longrightarrow>
          units = concat (map (record_units c (load_config c)) (get_Records ev)))"
  by (simp add: Let_def run_self run_loop_self run_effects concat_nonempty StreamAlert_init_def
      batch_units_all)

theorem run_accumulates_in_order_witness:
  "\<not> raises demo (StreamClassifier (load_config demo))
       (batch_units demo (load_config demo) (get_Records [''Records'' \<mapsto> [0, 1, 2, 3, 4]]))
   \<and> alerts (self_of (run demo [''Records'' \<mapsto> [0, 1, 2, 3, 4]] () (StreamAlert_init None))) =
     [''a'', ''c'', ''k'']
   \<and> rule_results (effects_of
        (run demo [''Records'' \<mapsto> [0, 1, 2, 3, 4]] () (StreamAlert_init None))) =
     [[''a''], [], [''c''], [''k'']]"
  using run_accumulates_in_order [of demo "[''Records'' \<mapsto> [0, 1, 2, 3, 4]]" "()" None]
  by (simp add: Let_def demo_def rstrip_def whitespace_def get_Records_def
      record_units_def results_of_def unit_results_def raises_def unit_raises_def)

text \<open>
  C6. The alert list is set to empty by the constructor and by nothing else: \<open>run\<close> appends
  the results of its batch to whatever the object holds. So the first \<open>run\<close> on a newly
  constructed \<open>StreamAlert\<close> returns the alerts of its own batch only, and a \<open>run\<close> on an object
  that was used before starts from the alerts of the earlier runs.
\<close>

theorem accumulator_set_by_constructor_only:
  "alerts (StreamAlert_init kw :: 'a StreamAlert) = []
   \<and> (let r = run c ev context (self :: 'a StreamAlert);
           units = batch_units c (load_config c) (get_Records ev);
           new = concat (results_of c (StreamClassifier (load_config c)) units)
       in alerts (self_of r) = alerts self @ new
        \<and> (return_alerts self = Some True \<longrightarrow>
              fst r = (if raises c (StreamClassifier (load_config c)) units
                       then Inl JsonDumpsError else Inr (Some (alerts self @ new)))))
   \<and> fst (run c ev context (StreamAlert_init (Some True))) =
       (if raises c (StreamClassifier (load_config c))
             (batch_units c (load_config c) (get_Records ev))
        then Inl JsonDumpsError
        else Inr (Some (concat (results_of c (StreamClassifier (load_config c))
               (batch_units c (load_config c) (get_Records ev))))))"
proof -
  have a: "alerts (self_of (run c ev context s)) =
      alerts s @ concat (results_of c (StreamClassifier (load_config c))
        (batch_units c (load_config c) (get_Records ev)))" for s
    by (simp add: run_self run_loop_self)
  have b: "return_alerts s = Some True \<Longrightarrow>
      fst (run c ev context s) =
        (if raises c (StreamClassifier (load_config c))
              (batch_units c (load_config c) (get_Records ev))
         then Inl JsonDumpsError
         else Inr (Some (alerts s @ concat (results_of c (StreamClassifier (load_config c))
                (batch_units c (load_config c) (get_Records ev))))))" for s
    using run_raises(1) [of c ev "context" s] run_returns(1) [of c ev s "context"] a [of s]
    by simp
  show ?thesis
    using b [of "StreamAlert_init (Some True)"] b [of self]
    by (simp add: Let_def a StreamAlert_init_def)
qed

theorem accumulator_set_by_constructor_only_witness:
  "return_alerts \<lparr>return_alerts = Some True, alerts = [''old'']\<rparr> = Some True
   \<and> fst (run demo [''Records'' \<mapsto> [2, 0]] ()
        \<lparr>return_alerts = Some True, alerts = [''old'']\<rparr>) = Inr (Some [''old'', ''k''])
   \<and> fst (run demo [''Records'' \<mapsto> [2, 0]] () (StreamAlert_init (Some True))) =
       Inr (Some [''k''])"
  using accumulator_set_by_constructor_only
    [of None demo "[''Records'' \<mapsto> [2, 0]]" "()"
      "\<lparr>return_alerts = Some True, alerts = [''old'']\<rparr>"]
  by (simp add: Let_def get_Records_def record_units_def results_of_def
      unit_results_def raises_def unit_raises_def demo_def)

text \<open>
  A second \<open>run\<close> on the same object, on an event without records, returns the alert of the
  first.
\<close>

theorem accumulator_survives_run_counterexample:
  "alerts (self_of (run demo [''Records'' \<mapsto> [2]] () (StreamAlert_init (Some True)))) = [''k'']
   \<and> fst (run demo Map.empty ()
        (self_of (run demo [''Records'' \<mapsto> [2]] () (StreamAlert_init (Some True))))) =
       Inr (Some [''k''])"
  by (simp add: run_def get_Records_def run_record_def kinesis_process_def process_alerts_def
      demo_def StreamAlert_init_def Let_def)

section \<open>The classification gate\<close>

text \<open>
  C4. A record whose payload is not \<open>valid_source\<close> after \<open>map_source\<close> is skipped before
  any extractor runs: the iteration calls no pre-parser, enters \<open>process_alerts\<close> and the rule
  engine not at all, leaves the alert list as it was, and the loop goes on with the next
  record.
\<close>

theorem unrecognized_source_skipped:
  assumes "\<not> valid_source (map_source c (StreamClassifier cfg) (new_StreamPayload c record))"
  shows "let r = run_record c cfg record self;
             p = map_source c (StreamClassifier cfg) (new_StreamPayload c record)
         in r = (Inr p, self, [Call_map_source (new_StreamPayload c record)])
          \<and> extraction_calls (effects_of r) = []
          \<and> process_alerts_entries (effects_of r) = []
          \<and> classify_calls (effects_of r) = []
          \<and> rule_results (effects_of r) = []
          \<and> alerts (self_of r) = alerts self
          \<and> record_units c cfg record = []
          \<and> (\<forall>rest pl es.
                run_loop c cfg (record # rest) (pl, self, es) =
                  run_loop c cfg rest
                    (Some p, self, es @ [Call_map_source (new_StreamPayload c record)]))"
  using assms by (simp add: run_record_def record_units_def Let_def observers)

theorem unrecognized_source_skipped_witness:
  "\<not> valid_source (map_source demo (StreamClassifier ()) (new_StreamPayload demo 0))
   \<and> run_record demo () 0 (StreamAlert_init None) =
       (Inr \<lparr>raw_record = 0, service = ''none'', valid_source = False, valid = False,
              attrs = []\<rparr>,
        StreamAlert_init None,
        [Call_map_source
           \<lparr>raw_record = 0, service = ''none'', valid_source = False, valid = False,
             attrs = []\<rparr>])
   \<and> extraction_calls (effects_of (run_record demo () 0 (StreamAlert_init None))) = []"
  using unrecognized_source_skipped [of demo "()" 0 "StreamAlert_init None"]
  by (simp add: demo_def Let_def observers)

section \<open>Invalid data\<close>




section \<open>The payload handed to the delivery decision\<close>

text \<open>
  C10. On a non-empty batch without the return-alerts flag, \<open>run\<close> never fails on an unbound
  \<open>payload\<close>, and unless the loop ended with an exception \<open>send_alerts\<close> is entered once, with
  the payload object of the last record of the batch in the state the last iteration left it.
  When the last record was skipped by the gate, that payload is the newly built one after
  \<open>map_source\<close>; \<open>classify_record\<close> was never called on it, and with an empty alert list its
  \<open>valid\<close> flag decides whether the debug line is logged.
\<close>

theorem skipped_last_record_payload_delivered:
  assumes "get_Records ev \<noteq> []" and "return_alerts self \<noteq> Some True"
  shows "let cfg = load_config c;
             records = get_Records ev;
             units = batch_units c cfg records;
             r = run c ev context self;
             p = record_payload c cfg (last records);
             p0 = map_source c (StreamClassifier cfg) (new_StreamPayload c (last records))
         in send_alerts_entries (effects_of r) =
              (if raises c (StreamClassifier cfg) units then []
               else [(load_env c context, p)])
          \<and> fst r \<noteq> Inl (UnboundLocalError ''payload'')
          \<and> (\<not> valid_source p0 \<longrightarrow>
                p = p0
                \<and> record_units c cfg (last records) = []
                \<and> (\<not> raises c (StreamClassifier cfg) units \<and> alerts (self_of r) = [] \<longrightarrow>
                     fst r = Inr None
                     \<and> effects_of r =
                         effects_of (loop_of c ev context self)
                         @ (if valid p0
                            then [Enter_send_alerts (load_env c context) p0,
                                  Log DEBUG Valid_data_no_alerts]
                            else [Enter_send_alerts (load_env c context) p0])))"
proof (cases "raises c (StreamClassifier (load_config c))
    (batch_units c (load_config c) (get_Records ev))")
  case True
  with assms show ?thesis
    by (simp add: Let_def run_send_entries run_raises(1) record_payload_def record_units_def)
next
  case False
  let ?e = "load_env c context"
  let ?p = "record_payload c (load_config c) (last (get_Records ev))"
  let ?q = "map_source c (StreamClassifier (load_config c))
      (new_StreamPayload c (last (get_Records ev)))"
  let ?s = "self_of (run c ev context self)"
  note d = run_delivers [OF assms False, of "context"]
  have entries: "send_alerts_entries (effects_of (run c ev context self)) = [(?e, ?p)]"
    using assms False by (simp add: run_send_entries)
  have key: "fst (run c ev context self) \<noteq> Inl (UnboundLocalError ''payload'')"
    using d(2) by (simp add: send_alerts_def split: option.splits sum.splits if_splits)
  have skip: "?p = ?q \<and> record_units c (load_config c) (last (get_Records ev)) = []"
    if "\<not> valid_source ?q"
    using that by (simp add: record_payload_def record_units_def Let_def)
  have quiet: "fst (run c ev context self) = Inr None
      \<and> effects_of (run c ev context self) =
          effects_of (loop_of c ev context self)
          @ (if valid ?p then [Enter_send_alerts ?e ?p, Log DEBUG Valid_data_no_alerts]
             else [Enter_send_alerts ?e ?p])"
    if "alerts ?s = []"
  proof -
    from that have "send_alerts c ?e ?p ?s =
        (Inr (), if valid ?p then [Enter_send_alerts ?e ?p, Log DEBUG Valid_data_no_alerts]
                 else [Enter_send_alerts ?e ?p])"
      by (simp add: send_alerts_def)
    then have "fst (send_alerts c ?e ?p ?s) = Inr ()"
      and "snd (send_alerts c ?e ?p ?s) =
        (if valid ?p then [Enter_send_alerts ?e ?p, Log DEBUG Valid_data_no_alerts]
         else [Enter_send_alerts ?e ?p])"
      by simp_all
    with d show ?thesis
      by (simp only: sum.case)
  qed
  show ?thesis
    unfolding Let_def
    using False entries key skip quiet by (simp only: if_False) metis
qed

theorem skipped_last_record_payload_delivered_witness:
  "get_Records [''Records'' \<mapsto> [3, 0::nat]] \<noteq> []
   \<and> return_alerts (StreamAlert_init None :: string StreamAlert) \<noteq> Some True
   \<and> \<not> valid_source (map_source demo (StreamClassifier ()) (new_StreamPayload demo 0))
   \<and> \<not> raises demo (StreamClassifier ())
         (batch_units demo () (get_Records [''Records'' \<mapsto> [3, 0]]))
   \<and> alerts (self_of (run demo [''Records'' \<mapsto> [3, 0]] () (StreamAlert_init None))) = []
   \<and> send_alerts_entries (effects_of
        (run demo [''Records'' \<mapsto> [3, 0]] () (StreamAlert_init None))) =
       [(production,
         \<lparr>raw_record = 0, service = ''none'', valid_source = False, valid = False,
           attrs = []\<rparr>)]
   \<and> fst (run demo [''Records'' \<mapsto> [3, 0]] () (StreamAlert_init None)) = Inr None"
proof -
  let ?ev = "[''Records'' \<mapsto> [3, 0::nat]]"
  let ?s = "StreamAlert_init None :: string StreamAlert"
  have a: "get_Records ?ev \<noteq> []"
    by (simp add: get_Records_def)
  have b: "return_alerts ?s \<noteq> Some True"
    by (simp add: StreamAlert_init_def)
  have c: "\<not> valid_source (map_source demo (StreamClassifier (load_config demo))
             (new_StreamPayload demo (last (get_Records ?ev))))"
    by (simp add: demo_def get_Records_def)
  have n: "\<not> raises demo (StreamClassifier (load_config demo))
             (batch_units demo (load_config demo) (get_Records ?ev))"
    by (simp add: get_Records_def record_units_def raises_def unit_raises_def demo_def)
  have d: "alerts (self_of (run demo ?ev () ?s)) = []"
    by (simp only: run_self run_loop_self)
      (simp add: record_units_def results_of_def unit_results_def raises_def
        unit_raises_def get_Records_def demo_def StreamAlert_init_def)
  note t = skipped_last_record_payload_delivered [OF a b, of demo "()", unfolded Let_def]
  have e1: "send_alerts_entries (effects_of (run demo ?ev () ?s)) =
      [(load_env demo (), record_payload demo (load_config demo) (last (get_Records ?ev)))]"
    using t n by simp
  have e2: "fst (run demo ?ev () ?s) = Inr None"
    using t c n d by blast
  have n': "\<not> raises demo (StreamClassifier ()) (batch_units demo () (get_Records ?ev))"
    using n by (simp add: demo_def)
  show ?thesis
    using a b c d e1 e2 n'
    by (simp add: demo_def get_Records_def production_def record_payload_def)
qed

section \<open>The empty batch\<close>

text \<open>
  C1. On an event without records and without the return-alerts flag, the loop body never
  runs, the local variable \<open>payload\<close> is unbound at line 74, and \<open>run\<close> raises
  \<open>UnboundLocalError\<close> instead of completing.
\<close>

theorem run_empty_batch_unbound_payload:
  "run c Map.empty context (StreamAlert_init None) =
     (Inl (UnboundLocalError ''payload''), StreamAlert_init None,
      [Log DEBUG (Number_of_Records 0), Call_load_config, Call_load_env context])"
  by (simp add: run_def get_Records_def StreamAlert_init_def Let_def)

text \<open>
  C7. On an event with an empty list of records and without the return-alerts flag,
  \<open>send_alerts\<close> is not entered at all: evaluating its argument \<open>payload\<close> raises first.
\<close>

theorem run_empty_batch_no_delivery_decision:
  "let r = run c [''Records'' \<mapsto> []] context (StreamAlert_init None)
   in send_alerts_entries (effects_of r) = []
    \<and> fst r = Inl (UnboundLocalError ''payload'')"
  by (simp add: run_def get_Records_def StreamAlert_init_def Let_def observers)

text \<open>
  C9. With an empty alert list and no payload object (an empty batch, the flag given as
  false), the delivery decision is not a no-op: \<open>run\<close> raises \<open>UnboundLocalError\<close> after its
  first three effects. With a payload object, \<open>send_alerts_empty_accumulator\<close> above gives the
  debug line for a valid payload and no action for an invalid one.
\<close>

theorem run_absent_payload_raises:
  "let r = run c [''Records'' \<mapsto> []] context \<lparr>return_alerts = Some False, alerts = []\<rparr>
   in alerts (self_of r) = []
    \<and> fst r = Inl (UnboundLocalError ''payload'')
    \<and> effects_of r =
        [Log DEBUG (Number_of_Records 0), Call_load_config, Call_load_env context]"
  by (simp add: run_def get_Records_def Let_def)

end
